theory Spec2Isabelle
  imports Complex_Main
begin

section \<open>The imagery-map synchronizer (MapillaryModel.ts)\<close>

text \<open>
  A shallow embedding of the class \<open>MapillaryModel\<close>. The viewer SDK, the host
  framework's command bus, \<open>fetch\<close> and the map's view are external: what each external
  call answers is read from an environment \<open>env\<close>, and every external call the code makes
  is appended to the ghost field \<open>effects\<close> of the model, in program order.

  JavaScript numbers are idealised as \<open>real\<close>: the code only passes coordinates through,
  adds 90 to a tilt and subtracts a bearing from 360, and the rounding of doubles is not
  part of the model.

  An \<open>async\<close> function is modelled twice where its suspension matters. The big-step
  version (\<open>moveCloseToPosition\<close>, \<open>syncMaps\<close>, \<open>unsyncMaps\<close>) runs the body to its end,
  which is what a caller that awaits it with no other event in between observes. The
  setters cannot await: they call \<open>void this._syncMaps()\<close> and
  \<open>void this._unsyncMaps()\<close>, which run the body up to its first suspending
  \<open>await\<close> and leave the rest as a pending task (\<open>syncMaps_start\<close>,
  \<open>unsyncMaps_start\<close>); the event \<open>Settle\<close> of the machine \<open>step\<close> later runs that rest
  (\<open>syncMaps_resume\<close>, \<open>unsyncMaps_resume\<close>).

  Left out: \<open>_onNodeChange\<close> (the cached node position is a field of the model, set from
  outside), the timing of \<open>throttle\<close> (\<open>onPerspectiveChange\<close> is one call that the throttle
  lets through), \<open>_onDestroy\<close> and \<open>_getSerializableProperties\<close> (its defaults are the
  values of \<open>fresh\<close>).
\<close>

subsection \<open>Values\<close>

type_synonym viewer_ref = nat
type_synonym map_ref = nat

text \<open>A \<open>Point\<close> built by \<open>new Point({latitude, longitude})\<close>: latitude first.\<close>

type_synonym Point = "real \<times> real"

datatype error = TypeError | Rejection

datatype 'a outcome = Resolves 'a | Rejects

record MapillaryCamera =
  latitude :: real
  longitude :: real
  heading :: real
  tilt :: real
  fov :: real

record LatLon =
  lat :: real
  lon :: real

record PointOfView =
  bearing :: real
  pov_tilt :: real

text \<open>
  A JavaScript value as \<open>response.json()\<close> can produce it, and \<open>undefined\<close>. An object
  is the list of its own properties.
\<close>

datatype jsval =
    JUndefined
  | JNull
  | JBool bool
  | JNum real
  | JStr string
  | JArr "jsval list"
  | JObj "(string \<times> jsval) list"

text \<open>\<open>v?.name\<close> for a name that no prototype defines (\<open>features\<close>, \<open>properties\<close>, \<open>key\<close>).\<close>

definition opt_prop :: "jsval \<Rightarrow> string \<Rightarrow> jsval" where
  "opt_prop v name =
     (case v of
        JObj kvs \<Rightarrow> (case map_of kvs name of Some x \<Rightarrow> x | None \<Rightarrow> JUndefined)
      | _ \<Rightarrow> JUndefined)"

text \<open>\<open>v?.[0]\<close>: the first element of an array, the first character of a string, the
  property \<open>"0"\<close> of an object.\<close>

definition opt_index0 :: "jsval \<Rightarrow> jsval" where
  "opt_index0 v =
     (case v of
        JArr xs \<Rightarrow> (case xs of [] \<Rightarrow> JUndefined | x # _ \<Rightarrow> x)
      | JStr cs \<Rightarrow> (case cs of [] \<Rightarrow> JUndefined | c # _ \<Rightarrow> JStr [c])
      | JObj kvs \<Rightarrow> (case map_of kvs ''0'' of Some x \<Rightarrow> x | None \<Rightarrow> JUndefined)
      | _ \<Rightarrow> JUndefined)"

text \<open>The truthiness that \<open>if (imgKey)\<close> tests.\<close>

definition truthy :: "jsval \<Rightarrow> bool" where
  "truthy v =
     (case v of
        JUndefined \<Rightarrow> False
      | JNull \<Rightarrow> False
      | JBool b \<Rightarrow> b
      | JNum x \<Rightarrow> x \<noteq> 0
      | JStr cs \<Rightarrow> cs \<noteq> []
      | JArr _ \<Rightarrow> True
      | JObj _ \<Rightarrow> True)"

subsection \<open>External calls\<close>

text \<open>The image query \<open>imageQueryUrl?client_id=..&closeto=lon,lat&radius=..\<close>:
  client id, longitude, latitude, radius.\<close>

datatype request = ImagesRequest string real real real

datatype fetch_outcome = FetchRejects | BodyNotJson | Body jsval

text \<open>
  The host commands, with their arguments in the order of the source's object literals:
  \<open>LocationMarkerCreate fov geometry heading tilt id maps userDraggable\<close>,
  \<open>LocationMarkerUpdate geometry heading tilt fov id maps\<close>,
  \<open>LocationMarkerRemove id maps\<close>,
  \<open>ZoomToViewpoint maps rotation targetGeometry scale\<close>.
\<close>

datatype command =
    LocationMarkerCreate real Point real real string "map_ref option" bool
  | LocationMarkerUpdate Point real real real string "map_ref option"
  | LocationMarkerRemove string "map_ref option"
  | ZoomToViewpoint "map_ref option" real Point real

datatype viewer_event = NodeChanged | PovChanged

datatype viewer_call =
    CallOn viewer_event
  | CallOff viewer_event
  | CallActivateCover
  | CallMoveToKey jsval
  | CallGetPosition
  | CallGetPointOfView
  | CallGetFieldOfView

datatype handle_name = ViewerUpdateHandle | AwaitViewHandle

datatype field_name = MapillaryField | MapField

text \<open>
  What the component does to the outside, and two ghost marks: \<open>Assign f\<close> is the
  moment the private field \<open>f\<close> is overwritten, \<open>UnhandledRejection e\<close> a promise
  discarded with \<open>void\<close> that rejected.
\<close>

datatype effect =
    Viewer viewer_ref viewer_call
  | Fetch request
  | Execute command
  | RemoveHandle handle_name
  | Subscribe
  | Watch
  | Assign field_name
  | UnhandledRejection error

text \<open>The suspended rest of a call made with \<open>void\<close>.\<close>

datatype task =
    SyncMapsAtFetch request
  | UnsyncMapsAtRemove command

record env =
  view_center :: "map_ref \<Rightarrow> Point option"
  fetch :: "request \<Rightarrow> fetch_outcome"
  moveToKey :: "viewer_ref \<Rightarrow> jsval \<Rightarrow> unit outcome"
  getPosition :: "viewer_ref \<Rightarrow> LatLon outcome"
  getPointOfView :: "viewer_ref \<Rightarrow> PointOfView outcome"
  getFieldOfView :: "viewer_ref \<Rightarrow> real outcome"
  execute :: "command \<Rightarrow> unit outcome"

subsection \<open>The component\<close>

text \<open>
  The fields of the class. \<open>comp_id\<close> is \<open>this.id\<close>, \<open>map_inst\<close> is \<open>_map\<close>;
  a handle field is \<open>True\<close> once a handle object is stored in it;
  \<open>synchronizePosition\<close> is only ever tested for truthiness, so \<open>undefined\<close> is
  \<open>False\<close>. \<open>effects\<close> and \<open>pending\<close> are ghost fields.
\<close>

record MapillaryModel =
  comp_id :: string
  mapillaryKey :: string
  searchRadius :: real
  defaultScale :: real
  startSynced :: "bool option"
  synchronizePosition :: bool
  currentMarkerPosition :: "Point option"
  updating :: bool
  currentNodePosition :: "LatLon option"
  awaitViewHandle :: bool
  viewerUpdateHandle :: bool
  handleMarkerUpdate :: bool
  synced :: bool
  mapillary :: "viewer_ref option"
  map_inst :: "map_ref option"
  effects :: "effect list"
  pending :: "task list"

definition emit :: "effect \<Rightarrow> MapillaryModel \<Rightarrow> MapillaryModel" where
  "emit e s = s\<lparr>effects := effects s @ [e]\<rparr>"

definition getCameraRotationFromBearing :: "real \<Rightarrow> real" where
  "getCameraRotationFromBearing b = 360 - b"

text \<open>\<open>_activateCover\<close>: reading \<open>activateCover\<close> of an absent viewer throws.\<close>

definition activateCover :: "MapillaryModel \<Rightarrow> (error + unit) \<times> MapillaryModel" where
  "activateCover s =
     (let s1 = s\<lparr>updating := False\<rparr> in
      case mapillary s1 of
        None \<Rightarrow> (Inl TypeError, s1)
      | Some v \<Rightarrow> (Inr (), emit (Viewer v CallActivateCover) s1))"

text \<open>The \<open>catch\<close> block of \<open>moveCloseToPosition\<close>.\<close>

definition moveCloseToPosition_catch :: "MapillaryModel \<Rightarrow> (error + unit) \<times> MapillaryModel" where
  "moveCloseToPosition_catch s = activateCover (s\<lparr>updating := False\<rparr>)"

text \<open>\<open>data?.features?.[0]?.properties?.key\<close>.\<close>

definition imgKey :: "jsval \<Rightarrow> jsval" where
  "imgKey data =
     opt_prop (opt_prop (opt_index0 (opt_prop data ''features'')) ''properties'') ''key''"

text \<open>\<open>moveCloseToPosition\<close> from the moment \<open>fetch(url)\<close> settles.\<close>

definition moveCloseToPosition_resume ::
  "env \<Rightarrow> request \<Rightarrow> MapillaryModel \<Rightarrow> (error + unit) \<times> MapillaryModel" where
  "moveCloseToPosition_resume e url s =
     (case fetch e url of
        FetchRejects \<Rightarrow> moveCloseToPosition_catch s
      | BodyNotJson \<Rightarrow> moveCloseToPosition_catch s
      | Body data \<Rightarrow>
          (if truthy (imgKey data) then
             (case mapillary s of
                None \<Rightarrow> moveCloseToPosition_catch s
              | Some v \<Rightarrow>
                  (let s1 = emit (Viewer v (CallMoveToKey (imgKey data))) s in
                   case moveToKey e v (imgKey data) of
                     Rejects \<Rightarrow> moveCloseToPosition_catch s1
                   | Resolves _ \<Rightarrow> (Inr (), s1\<lparr>updating := False\<rparr>)))
           else
             (case activateCover (s\<lparr>updating := False\<rparr>) of
                (Inl _, s2) \<Rightarrow> moveCloseToPosition_catch s2
              | (Inr _, s2) \<Rightarrow> (Inr (), s2))))"

definition moveCloseToPosition ::
  "env \<Rightarrow> real \<Rightarrow> real \<Rightarrow> MapillaryModel \<Rightarrow> (error + unit) \<times> MapillaryModel" where
  "moveCloseToPosition e latitude' longitude' s =
     (let url = ImagesRequest (mapillaryKey s) longitude' latitude' (searchRadius s) in
      moveCloseToPosition_resume e url (emit (Fetch url) s))"

text \<open>
  \<open>_getMapillaryCamera\<close>. The three promises of \<open>Promise.all\<close> are created in array
  order; \<open>getPosition\<close> is called only when no node position is cached.
\<close>

definition getMapillaryCamera ::
  "env \<Rightarrow> MapillaryModel \<Rightarrow> (error + MapillaryCamera option) \<times> MapillaryModel" where
  "getMapillaryCamera e s =
     (case mapillary s of
        None \<Rightarrow> (Inr None, s)
      | Some v \<Rightarrow>
          (let s1 = (case currentNodePosition s of
                       Some _ \<Rightarrow> s
                     | None \<Rightarrow> emit (Viewer v CallGetPosition) s);
               pos = (case currentNodePosition s of
                        Some p \<Rightarrow> Resolves p
                      | None \<Rightarrow> getPosition e v);
               s2 = emit (Viewer v CallGetPointOfView) s1;
               s3 = emit (Viewer v CallGetFieldOfView) s2
           in case pos of
                Rejects \<Rightarrow> (Inl Rejection, s3)
              | Resolves p \<Rightarrow>
                  (case getPointOfView e v of
                     Rejects \<Rightarrow> (Inl Rejection, s3)
                   | Resolves pv \<Rightarrow>
                       (case getFieldOfView e v of
                          Rejects \<Rightarrow> (Inl Rejection, s3)
                        | Resolves f \<Rightarrow>
                            (Inr (Some \<lparr>latitude = lat p, longitude = lon p,
                                        heading = bearing pv, tilt = pov_tilt pv + 90,
                                        fov = f\<rparr>), s3)))))"

text \<open>\<open>recenter\<close>. Destructuring an undefined camera throws.\<close>

definition recenter :: "env \<Rightarrow> MapillaryModel \<Rightarrow> (error + unit) \<times> MapillaryModel" where
  "recenter e s =
     (case getMapillaryCamera e s of
        (Inl err, s1) \<Rightarrow> (Inl err, s1)
      | (Inr None, s1) \<Rightarrow> (Inl TypeError, s1)
      | (Inr (Some cam), s1) \<Rightarrow>
          (let centerPoint = (latitude cam, longitude cam);
               zoom = ZoomToViewpoint (map_inst s1)
                        (getCameraRotationFromBearing (heading cam)) centerPoint (defaultScale s1);
               s2 = emit (Execute zoom) s1
           in case execute e zoom of
                Rejects \<Rightarrow> (Inl Rejection, s2)
              | Resolves _ \<Rightarrow> (Inr (), s2)))"

text \<open>\<open>_syncMaps\<close> after \<open>moveCloseToPosition\<close> has returned.\<close>

definition syncMaps_rest :: "env \<Rightarrow> MapillaryModel \<Rightarrow> (error + unit) \<times> MapillaryModel" where
  "syncMaps_rest e s =
     (case getMapillaryCamera e s of
        (Inl err, s1) \<Rightarrow> (Inl err, s1)
      | (Inr None, s1) \<Rightarrow> (Inl TypeError, s1)
      | (Inr (Some cam), s1) \<Rightarrow>
          (let centerPoint = (latitude cam, longitude cam);
               create = LocationMarkerCreate (fov cam) centerPoint (heading cam) (tilt cam)
                          (comp_id s1) (map_inst s1) True;
               s2 = emit (Execute create) s1;
               zoom = ZoomToViewpoint (map_inst s2)
                        (getCameraRotationFromBearing (heading cam)) centerPoint (defaultScale s2);
               s3 = (if synchronizePosition s2 then emit (Execute zoom) s2 else s2)
           in if execute e create = Rejects then (Inl Rejection, s3)
              else if synchronizePosition s2 \<and> execute e zoom = Rejects then (Inl Rejection, s3)
              else (Inr (), s3)))"

text \<open>\<open>_syncMaps\<close>, run to its end.\<close>

definition syncMaps :: "env \<Rightarrow> MapillaryModel \<Rightarrow> (error + unit) \<times> MapillaryModel" where
  "syncMaps e s =
     (if map_inst s = None \<or> mapillary s = None \<or> synced s then (Inr (), s)
      else
        (let s1 = s\<lparr>synced := True,
                     synchronizePosition := (case startSynced s of None \<Rightarrow> True | Some b \<Rightarrow> b)\<rparr>
         in case map_inst s1 of
              None \<Rightarrow> (Inl TypeError, s1)
            | Some m \<Rightarrow>
                (case view_center e m of
                   None \<Rightarrow> (Inl TypeError, s1)
                 | Some c \<Rightarrow>
                     (case moveCloseToPosition e (fst c) (snd c) s1 of
                        (Inl err, s2) \<Rightarrow> (Inl err, s2)
                      | (Inr _, s2) \<Rightarrow> syncMaps_rest e s2))))"

text \<open>\<open>_unsyncMaps\<close>, run to its end.\<close>

definition unsyncMaps :: "env \<Rightarrow> MapillaryModel \<Rightarrow> (error + unit) \<times> MapillaryModel" where
  "unsyncMaps e s =
     (let s1 = s\<lparr>synced := False\<rparr>;
          cmd = LocationMarkerRemove (comp_id s1) (map_inst s1);
          s2 = emit (Execute cmd) s1
      in case execute e cmd of
           Rejects \<Rightarrow> (Inl Rejection, s2)
         | Resolves _ \<Rightarrow> (Inr (), s2))"

text \<open>
  \<open>void this._unsyncMaps()\<close>: the body up to its \<open>await\<close>. The flag is cleared and
  the removal command is issued (its argument \<open>maps: this.map\<close> is read now); the
  completion of the command is left pending.
\<close>

definition unsyncMaps_start :: "MapillaryModel \<Rightarrow> MapillaryModel" where
  "unsyncMaps_start s =
     (let s1 = s\<lparr>synced := False\<rparr>;
          cmd = LocationMarkerRemove (comp_id s1) (map_inst s1);
          s2 = emit (Execute cmd) s1
      in s2\<lparr>pending := pending s2 @ [UnsyncMapsAtRemove cmd]\<rparr>)"

definition unsyncMaps_resume :: "env \<Rightarrow> command \<Rightarrow> MapillaryModel \<Rightarrow> MapillaryModel" where
  "unsyncMaps_resume e cmd s =
     (case execute e cmd of
        Rejects \<Rightarrow> emit (UnhandledRejection Rejection) s
      | Resolves _ \<Rightarrow> s)"

text \<open>
  \<open>void this._syncMaps()\<close>: the body up to the first suspending \<open>await\<close>, which is
  \<open>await fetch(url)\<close> inside \<open>moveCloseToPosition\<close>.
\<close>

definition syncMaps_start :: "env \<Rightarrow> MapillaryModel \<Rightarrow> MapillaryModel" where
  "syncMaps_start e s =
     (if map_inst s = None \<or> mapillary s = None \<or> synced s then s
      else
        (let s1 = s\<lparr>synced := True,
                     synchronizePosition := (case startSynced s of None \<Rightarrow> True | Some b \<Rightarrow> b)\<rparr>
         in case map_inst s1 of
              None \<Rightarrow> emit (UnhandledRejection TypeError) s1
            | Some m \<Rightarrow>
                (case view_center e m of
                   None \<Rightarrow> emit (UnhandledRejection TypeError) s1
                 | Some c \<Rightarrow>
                     (let url = ImagesRequest (mapillaryKey s1) (snd c) (fst c) (searchRadius s1);
                          s2 = emit (Fetch url) s1
                      in s2\<lparr>pending := pending s2 @ [SyncMapsAtFetch url]\<rparr>))))"

definition syncMaps_resume :: "env \<Rightarrow> request \<Rightarrow> MapillaryModel \<Rightarrow> MapillaryModel" where
  "syncMaps_resume e url s =
     (case moveCloseToPosition_resume e url s of
        (Inl err, s1) \<Rightarrow> emit (UnhandledRejection err) s1
      | (Inr _, s1) \<Rightarrow>
          (case syncMaps_rest e s1 of
             (Inl err, s2) \<Rightarrow> emit (UnhandledRejection err) s2
           | (Inr _, s2) \<Rightarrow> s2))"

text \<open>
  \<open>set mapillary(instance)\<close>. The last test is \<open>!this._synced && this.map.view\<close>:
  when the component is not synced, \<open>this.map.view\<close> is read, and reading \<open>view\<close> of
  an absent map throws.
\<close>

definition set_mapillary ::
  "env \<Rightarrow> viewer_ref option \<Rightarrow> MapillaryModel \<Rightarrow> (error + unit) \<times> MapillaryModel" where
  "set_mapillary e inst s =
     (if inst = mapillary s then (Inr (), s)
      else
        (let s1 = (if viewerUpdateHandle s then emit (RemoveHandle ViewerUpdateHandle) s else s);
             s2 = (case mapillary s1 of
                     None \<Rightarrow> s1
                   | Some v \<Rightarrow>
                       unsyncMaps_start
                         (emit (Viewer v CallActivateCover)
                           (emit (Viewer v (CallOff PovChanged))
                             (emit (Viewer v (CallOff NodeChanged)) s1))));
             s3 = emit (Assign MapillaryField) (s2\<lparr>mapillary := inst\<rparr>);
             s4 = (case inst of
                     None \<Rightarrow> s3
                   | Some v \<Rightarrow>
                       emit Subscribe
                         ((emit (Viewer v (CallOn NodeChanged)) s3)\<lparr>viewerUpdateHandle := True\<rparr>))
         in if synced s4 then (Inr (), s4)
            else
              (case map_inst s4 of
                 None \<Rightarrow> (Inl TypeError, s4)
               | Some m \<Rightarrow>
                   (case view_center e m of
                      None \<Rightarrow> (Inr (), s4)
                    | Some _ \<Rightarrow> (Inr (), syncMaps_start e s4)))))"

text \<open>\<open>set map(instance)\<close>.\<close>

definition set_map :: "map_ref option \<Rightarrow> MapillaryModel \<Rightarrow> MapillaryModel" where
  "set_map inst s =
     (if inst = map_inst s then s
      else
        (let s1 = (case map_inst s of None \<Rightarrow> s | Some _ \<Rightarrow> unsyncMaps_start s);
             s2 = emit (Assign MapField) (s1\<lparr>map_inst := inst\<rparr>)
         in emit Watch (s2\<lparr>awaitViewHandle := True\<rparr>)))"

text \<open>The callback of \<open>this.watch("map.view", ..)\<close>, called with the new value of
  \<open>this.map.view\<close>.\<close>

definition onMapViewChanged :: "env \<Rightarrow> MapillaryModel \<Rightarrow> MapillaryModel" where
  "onMapViewChanged e s =
     (case map_inst s of
        None \<Rightarrow> s
      | Some m \<Rightarrow>
          (case view_center e m of
             None \<Rightarrow> s
           | Some _ \<Rightarrow> syncMaps_start e (emit (RemoveHandle AwaitViewHandle) s)))"

text \<open>\<open>_handleViewerUpdate(event)\<close>, given \<open>event.geometry\<close>.\<close>

definition handleViewerUpdate :: "Point \<Rightarrow> MapillaryModel \<Rightarrow> MapillaryModel" where
  "handleViewerUpdate updatePoint s =
     (let s1 = (if handleMarkerUpdate s
                then s\<lparr>currentMarkerPosition := Some (fst updatePoint, snd updatePoint)\<rparr>
                else s)
      in s1\<lparr>handleMarkerUpdate := True\<rparr>)"

text \<open>
  The function that \<open>throttle\<close> wraps in \<open>_onPerspectiveChange\<close>: one call that the
  throttle lets through. \<open>finally\<close> is attached to the \<open>Promise.all\<close> of the two
  commands only.
\<close>

definition onPerspectiveChange :: "env \<Rightarrow> MapillaryModel \<Rightarrow> (error + unit) \<times> MapillaryModel" where
  "onPerspectiveChange e s =
     (if map_inst s = None \<or> mapillary s = None \<or> updating s then (Inr (), s)
      else
        (case getMapillaryCamera e (s\<lparr>updating := True\<rparr>) of
           (Inl err, s1) \<Rightarrow> (Inl err, s1)
         | (Inr None, s1) \<Rightarrow> (Inl TypeError, s1)
         | (Inr (Some cam), s1) \<Rightarrow>
             (let centerPoint = (latitude cam, longitude cam);
                  s2 = s1\<lparr>handleMarkerUpdate := False\<rparr>;
                  upd = LocationMarkerUpdate centerPoint (heading cam) (tilt cam) (fov cam)
                          (comp_id s2) (map_inst s2);
                  s3 = emit (Execute upd) s2;
                  zoom = ZoomToViewpoint (map_inst s3)
                           (getCameraRotationFromBearing (heading cam)) centerPoint
                           (defaultScale s3);
                  s4 = (if synchronizePosition s3 then emit (Execute zoom) s3 else s3);
                  s5 = s4\<lparr>updating := False\<rparr>
              in if execute e upd = Rejects then (Inl Rejection, s5)
                 else if synchronizePosition s3 \<and> execute e zoom = Rejects then (Inl Rejection, s5)
                 else (Inr (), s5))))"

subsection \<open>The component as a machine\<close>

text \<open>
  What can happen to the component from outside: a handle is assigned, the watch on
  \<open>map.view\<close> fires, or the \<open>k\<close>-th pending promise settles and the rest of its
  \<open>async\<close> function runs. An error thrown by a setter goes to the caller of the setter.
\<close>

datatype event =
    SetMapillary "viewer_ref option"
  | SetMap "map_ref option"
  | MapViewChanged
  | Settle nat

definition resume :: "env \<Rightarrow> task \<Rightarrow> MapillaryModel \<Rightarrow> MapillaryModel" where
  "resume e t s =
     (case t of
        SyncMapsAtFetch url \<Rightarrow> syncMaps_resume e url s
      | UnsyncMapsAtRemove cmd \<Rightarrow> unsyncMaps_resume e cmd s)"

definition step :: "env \<Rightarrow> event \<Rightarrow> MapillaryModel \<Rightarrow> MapillaryModel" where
  "step e ev s =
     (case ev of
        SetMapillary i \<Rightarrow> snd (set_mapillary e i s)
      | SetMap i \<Rightarrow> set_map i s
      | MapViewChanged \<Rightarrow> onMapViewChanged e s
      | Settle k \<Rightarrow>
          (if k < length (pending s)
           then resume e (pending s ! k)
                  (s\<lparr>pending := take k (pending s) @ drop (Suc k) (pending s)\<rparr>)
           else s))"

fun run :: "env \<Rightarrow> event list \<Rightarrow> MapillaryModel \<Rightarrow> MapillaryModel" where
  "run e [] s = s"
| "run e (ev # evs) s = run e evs (step e ev s)"

text \<open>
  Modelled from the spec: the host framework's store of location markers, which is not
  in the repository. The spec counts the markers "created under this component's id and
  not yet removed": a create command under the id adds one, a remove command under the
  id removes them.
\<close>

definition marker_effect :: "string \<Rightarrow> effect \<Rightarrow> nat \<Rightarrow> nat" where
  "marker_effect i x n =
     (case x of
        Execute (LocationMarkerCreate _ _ _ _ j _ _) \<Rightarrow> (if j = i then Suc n else n)
      | Execute (LocationMarkerRemove j _) \<Rightarrow> (if j = i then 0 else n)
      | _ \<Rightarrow> n)"

definition marker_count :: "string \<Rightarrow> effect list \<Rightarrow> nat" where
  "marker_count i xs = fold (marker_effect i) xs 0"

subsection \<open>Example inputs\<close>

text \<open>A component as constructed, with the defaults of \<open>_getSerializableProperties\<close>.\<close>

definition fresh :: MapillaryModel where
  "fresh =
     \<lparr>comp_id = ''mapillary'', mapillaryKey = '''', searchRadius = 500, defaultScale = 3000,
      startSynced = Some True, synchronizePosition = False, currentMarkerPosition = None,
      updating = False, currentNodePosition = None, awaitViewHandle = False,
      viewerUpdateHandle = False, handleMarkerUpdate = True, synced = False,
      mapillary = None, map_inst = None, effects = [], pending = []\<rparr>"

text \<open>An environment in which every external call succeeds and the index has one image.\<close>

definition one_image :: jsval where
  "one_image = JObj [(''features'', JArr [JObj [(''properties'', JObj [(''key'', JStr ''abc'')])]])]"

definition env_ok :: env where
  "env_ok =
     \<lparr>view_center = (\<lambda>m. Some (10, 20)),
      fetch = (\<lambda>r. Body one_image),
      moveToKey = (\<lambda>v k. Resolves ()),
      getPosition = (\<lambda>v. Resolves \<lparr>lat = 1, lon = 2\<rparr>),
      getPointOfView = (\<lambda>v. Resolves \<lparr>bearing = 90, pov_tilt = 0\<rparr>),
      getFieldOfView = (\<lambda>v. Resolves 60),
      execute = (\<lambda>c. Resolves ())\<rparr>"

text \<open>A component with map 1 and viewer 1 attached and no sync started.\<close>

definition attached :: MapillaryModel where
  "attached = fresh\<lparr>mapillary := Some 1, map_inst := Some 1\<rparr>"

text \<open>
  The component after the map (its view ready) and then the viewer were assigned and the
  image query of the sync answered: synced, with its marker created.
\<close>

definition synced_example :: MapillaryModel where
  "synced_example = run env_ok [SetMap (Some 1), SetMapillary (Some 1), Settle 0] fresh"

text \<open>An index answer whose first feature has an empty key.\<close>

definition empty_key_image :: jsval where
  "empty_key_image =
     JObj [(''features'', JArr [JObj [(''properties'', JObj [(''key'', JStr '''')])]])]"

definition env_empty_key :: env where
  "env_empty_key = env_ok\<lparr>fetch := (\<lambda>r. Body empty_key_image)\<rparr>"

text \<open>An environment in which the viewer's point-of-view query rejects.\<close>

definition env_pov_rejects :: env where
  "env_pov_rejects = env_ok\<lparr>getPointOfView := (\<lambda>v. Rejects)\<rparr>"

text \<open>An environment in which the image query is rejected.\<close>

definition env_fetch_rejects :: env where
  "env_fetch_rejects = env_ok\<lparr>fetch := (\<lambda>r. FetchRejects)\<rparr>"

subsection \<open>Observations\<close>

text \<open>What a call added to the log: the effects of \<open>s'\<close> after those of \<open>s\<close>.\<close>

definition issued :: "MapillaryModel \<Rightarrow> MapillaryModel \<Rightarrow> effect list" where
  "issued s s' = drop (length (effects s)) (effects s')"

text \<open>The rotations of the zoom commands in a log, in order.\<close>

definition zoom_rotations :: "effect list \<Rightarrow> real list" where
  "zoom_rotations xs =
     concat (map (\<lambda>x. case x of Execute (ZoomToViewpoint _ r _ _) \<Rightarrow> [r] | _ \<Rightarrow> []) xs)"

text \<open>The host commands in a log, in order.\<close>

definition commands :: "effect list \<Rightarrow> command list" where
  "commands xs = concat (map (\<lambda>x. case x of Execute c \<Rightarrow> [c] | _ \<Rightarrow> []) xs)"

text \<open>\<open>a\<close> stands in the list immediately before \<open>b\<close>.\<close>

fun adjacent :: "'a \<Rightarrow> 'a \<Rightarrow> 'a list \<Rightarrow> bool" where
  "adjacent a b (x # y # zs) = ((x = a \<and> y = b) \<or> adjacent a b (y # zs))"
| "adjacent a b _ = False"

subsection \<open>Runs without interleaving\<close>

text \<open>
  A run in which the component is left alone after each event until every promise that
  the event left pending has settled: no assignment arrives while a sync is suspended.
  Each event comes with the environment that answers the external calls made for it.
\<close>

definition quiesce :: "env \<Rightarrow> MapillaryModel \<Rightarrow> MapillaryModel" where
  "quiesce e s = run e (replicate (length (pending s)) (Settle 0)) s"

fun run_quiet :: "(env \<times> event) list \<Rightarrow> MapillaryModel \<Rightarrow> MapillaryModel" where
  "run_quiet [] s = s"
| "run_quiet (x # xs) s = run_quiet xs (quiesce (fst x) (step (fst x) (snd x) s))"

text \<open>The markers of this component: created under its id and not yet removed.\<close>

definition markers :: "MapillaryModel \<Rightarrow> nat" where
  "markers s = marker_count (comp_id s) (effects s)"

definition is_sync :: "task \<Rightarrow> bool" where
  "is_sync t = (case t of SyncMapsAtFetch _ \<Rightarrow> True | UnsyncMapsAtRemove _ \<Rightarrow> False)"

text \<open>
  The invariant behind the \<open>_synced\<close> flag: with no sync suspended there is no marker, or
  one marker and the component is synced; with one sync suspended there is no marker yet
  and the component is synced; and no two syncs are suspended.
\<close>

definition marker_inv :: "MapillaryModel \<Rightarrow> bool" where
  "marker_inv s =
     (if filter is_sync (pending s) = [] then markers s = 0 \<or> (markers s = 1 \<and> synced s)
      else length (filter is_sync (pending s)) = 1 \<and> markers s = 0 \<and> synced s)"

definition quiet :: "MapillaryModel \<Rightarrow> bool" where
  "quiet s = (marker_inv s \<and> filter is_sync (pending s) = [])"

definition settled :: "MapillaryModel \<Rightarrow> bool" where
  "settled s = (marker_inv s \<and> pending s = [])"

section \<open>Properties\<close>

subsection \<open>Auxiliary facts\<close>

lemma effects_emit: "effects (emit x s) = effects s @ [x]"
  by (simp add: emit_def)

lemma zoom_rotations_Nil: "zoom_rotations [] = []"
  by (simp add: zoom_rotations_def)

lemma zoom_rotations_Cons:
  "zoom_rotations (x # xs) =
     (case x of Execute (ZoomToViewpoint _ r _ _) \<Rightarrow> [r] | _ \<Rightarrow> []) @ zoom_rotations xs"
  by (simp add: zoom_rotations_def)

lemma zoom_rotations_append:
  "zoom_rotations (xs @ ys) = zoom_rotations xs @ zoom_rotations ys"
  by (simp add: zoom_rotations_def)

text \<open>The guard of \<open>_syncMaps\<close>: nothing happens while the map or the viewer is absent.\<close>

lemma syncMaps_guard:
  "map_inst s = None \<or> mapillary s = None \<Longrightarrow> syncMaps e s = (Inr (), s)"
  by (auto simp add: syncMaps_def)

lemma syncMaps_start_guard:
  "map_inst s = None \<or> mapillary s = None \<Longrightarrow> syncMaps_start e s = s"
  by (auto simp add: syncMaps_start_def)

text \<open>With a viewer attached, \<open>moveCloseToPosition\<close> returns normally, clears
  \<open>updating\<close>, and touches nothing else but the log, where it issues no command.\<close>

lemma moveCloseToPosition_resume_frame:
  "mapillary s = Some v \<Longrightarrow>
     moveCloseToPosition_resume e url s =
       (Inr (), s\<lparr>updating := False,
                  effects := effects s @ issued s (snd (moveCloseToPosition_resume e url s))\<rparr>)"
  by (simp add: moveCloseToPosition_resume_def moveCloseToPosition_catch_def issued_def
      activateCover_def emit_def Let_def split: fetch_outcome.splits outcome.splits)

lemma moveCloseToPosition_resume_no_zoom:
  "mapillary s = Some v \<Longrightarrow>
     zoom_rotations (issued s (snd (moveCloseToPosition_resume e url s))) = []"
  by (simp add: moveCloseToPosition_resume_def moveCloseToPosition_catch_def issued_def
      activateCover_def emit_def Let_def zoom_rotations_def
      split: fetch_outcome.splits outcome.splits)

lemma moveCloseToPosition_frame:
  assumes v: "mapillary s = Some v"
  shows "\<exists>xs. moveCloseToPosition e la lo s =
                (Inr (), s\<lparr>updating := False, effects := effects s @ xs\<rparr>) \<and>
              zoom_rotations xs = []"
proof -
  let ?url = "ImagesRequest (mapillaryKey s) lo la (searchRadius s)"
  let ?s0 = "emit (Fetch ?url) s"
  let ?xs = "issued ?s0 (snd (moveCloseToPosition_resume e ?url ?s0))"
  from v have v0: "mapillary ?s0 = Some v" by (simp add: emit_def)
  have "moveCloseToPosition e la lo s = moveCloseToPosition_resume e ?url ?s0"
    by (simp add: moveCloseToPosition_def Let_def)
  also have "\<dots> = (Inr (), ?s0\<lparr>updating := False, effects := effects ?s0 @ ?xs\<rparr>)"
    by (rule moveCloseToPosition_resume_frame [OF v0])
  also have "\<dots> = (Inr (), s\<lparr>updating := False, effects := effects s @ (Fetch ?url # ?xs)\<rparr>)"
    by (simp add: emit_def)
  finally have "moveCloseToPosition e la lo s =
      (Inr (), s\<lparr>updating := False, effects := effects s @ (Fetch ?url # ?xs)\<rparr>)" .
  moreover have "zoom_rotations (Fetch ?url # ?xs) = []"
    using moveCloseToPosition_resume_no_zoom [OF v0] by (simp add: zoom_rotations_Cons)
  ultimately show ?thesis by blast
qed

lemma syncMaps_rest_rotation:
  "mapillary s = Some v \<Longrightarrow> getPointOfView e v = Resolves pv \<Longrightarrow>
     \<exists>ys. effects (snd (syncMaps_rest e s)) = effects s @ ys \<and>
          (\<forall>r \<in> set (zoom_rotations ys). r = 360 - bearing pv)"
  by (simp add: syncMaps_rest_def getMapillaryCamera_def emit_def Let_def
      getCameraRotationFromBearing_def zoom_rotations_def split: option.splits outcome.splits)

lemma syncMaps_rotation:
  assumes v: "mapillary s = Some v" and pv: "getPointOfView e v = Resolves pv"
  shows "\<forall>r \<in> set (zoom_rotations (issued s (snd (syncMaps e s)))). r = 360 - bearing pv"
proof (cases "map_inst s = None \<or> synced s")
  case True
  then show ?thesis by (auto simp add: syncMaps_def issued_def zoom_rotations_def)
next
  case False
  then obtain m where m: "map_inst s = Some m" and ns: "\<not> synced s" by auto
  let ?s1 = "s\<lparr>synced := True,
                synchronizePosition := (case startSynced s of None \<Rightarrow> True | Some b \<Rightarrow> b)\<rparr>"
  show ?thesis
  proof (cases "view_center e m")
    case None
    with m ns v show ?thesis by (simp add: syncMaps_def issued_def zoom_rotations_def)
  next
    case (Some c)
    from v have v1: "mapillary ?s1 = Some v" by simp
    from moveCloseToPosition_frame [OF v1, of e "fst c" "snd c"]
    obtain xs where mc: "moveCloseToPosition e (fst c) (snd c) ?s1 =
        (Inr (), ?s1\<lparr>updating := False, effects := effects ?s1 @ xs\<rparr>)"
      and zx: "zoom_rotations xs = []" by blast
    let ?s2 = "?s1\<lparr>updating := False, effects := effects ?s1 @ xs\<rparr>"
    from v have v2: "mapillary ?s2 = Some v" by simp
    from syncMaps_rest_rotation [OF v2 pv]
    obtain ys where ry: "effects (snd (syncMaps_rest e ?s2)) = effects ?s2 @ ys"
      and zy: "\<forall>r \<in> set (zoom_rotations ys). r = 360 - bearing pv" by blast
    have "syncMaps e s = syncMaps_rest e ?s2"
      using m ns v Some mc by (simp add: syncMaps_def)
    then have "issued s (snd (syncMaps e s)) = xs @ ys"
      using ry by (simp add: issued_def)
    with zx zy show ?thesis by (simp add: zoom_rotations_append)
  qed
qed

lemma recenter_rotation:
  "mapillary s = Some v \<Longrightarrow> getPointOfView e v = Resolves pv \<Longrightarrow>
     \<forall>r \<in> set (zoom_rotations (issued s (snd (recenter e s)))). r = 360 - bearing pv"
  by (simp add: recenter_def getMapillaryCamera_def issued_def emit_def Let_def
      getCameraRotationFromBearing_def zoom_rotations_def split: option.splits outcome.splits)

lemma onPerspectiveChange_rotation:
  "mapillary s = Some v \<Longrightarrow> getPointOfView e v = Resolves pv \<Longrightarrow>
     \<forall>r \<in> set (zoom_rotations (issued s (snd (onPerspectiveChange e s)))). r = 360 - bearing pv"
  by (simp add: onPerspectiveChange_def getMapillaryCamera_def issued_def emit_def Let_def
      getCameraRotationFromBearing_def zoom_rotations_def split: option.splits outcome.splits)

text \<open>When the camera resolves, a point-of-view cycle ends with \<open>updating\<close> cleared and the
  echo of its marker update suppressed, whatever the two commands answer.\<close>

lemma onPerspectiveChange_pair_clears:
  "map_inst s = Some m \<Longrightarrow> mapillary s = Some v \<Longrightarrow> \<not> updating s \<Longrightarrow>
   getPosition e v = Resolves p \<Longrightarrow> getPointOfView e v = Resolves pv \<Longrightarrow>
   getFieldOfView e v = Resolves f \<Longrightarrow>
     \<not> updating (snd (onPerspectiveChange e s)) \<and>
     \<not> handleMarkerUpdate (snd (onPerspectiveChange e s))"
  by (simp add: onPerspectiveChange_def getMapillaryCamera_def emit_def Let_def
      split: option.splits)

lemma synced_example_value:
  "synced_example =
     \<lparr>comp_id = ''mapillary'', mapillaryKey = '''', searchRadius = 500,
      defaultScale = 3000, startSynced = Some True,
      synchronizePosition = True, currentMarkerPosition = None,
      updating = False, currentNodePosition = None, awaitViewHandle = True,
      viewerUpdateHandle = True, handleMarkerUpdate = True, synced = True,
      mapillary = Some 1, map_inst = Some 1,
      effects =
        [Assign MapField, Watch, Assign MapillaryField,
         Viewer 1 (CallOn NodeChanged), Subscribe,
         Fetch (ImagesRequest '''' 20 10 500),
         Viewer 1 (CallMoveToKey (JStr ''abc'')), Viewer 1 CallGetPosition,
         Viewer 1 CallGetPointOfView, Viewer 1 CallGetFieldOfView,
         Execute (LocationMarkerCreate 60 (1, 2) 90 90 ''mapillary'' (Some 1) True),
         Execute (ZoomToViewpoint (Some 1) 270 (1, 2) 3000)],
      pending = []\<rparr>"
  by (simp add: synced_example_def step_def set_map_def set_mapillary_def fresh_def env_ok_def
      one_image_def emit_def syncMaps_start_def resume_def syncMaps_resume_def
      moveCloseToPosition_resume_def imgKey_def opt_prop_def opt_index0_def truthy_def
      syncMaps_rest_def getMapillaryCamera_def getCameraRotationFromBearing_def Let_def)

subsection \<open>The marker invariant in runs without interleaving\<close>

lemma marker_count_append:
  "marker_count i (xs @ ys) = fold (marker_effect i) ys (marker_count i xs)"
  by (simp add: marker_count_def)

lemma moveCloseToPosition_resume_core:
  "comp_id (snd (moveCloseToPosition_resume e url s)) = comp_id s \<and>
   synced (snd (moveCloseToPosition_resume e url s)) = synced s \<and>
   pending (snd (moveCloseToPosition_resume e url s)) = pending s \<and>
   markers (snd (moveCloseToPosition_resume e url s)) = markers s"
  by (simp add: moveCloseToPosition_resume_def moveCloseToPosition_catch_def activateCover_def
      emit_def markers_def marker_count_append marker_effect_def Let_def
      split: fetch_outcome.splits outcome.splits option.splits)

lemma syncMaps_rest_core:
  "comp_id (snd (syncMaps_rest e s)) = comp_id s \<and>
   synced (snd (syncMaps_rest e s)) = synced s \<and>
   pending (snd (syncMaps_rest e s)) = pending s \<and>
   markers (snd (syncMaps_rest e s)) \<le> Suc (markers s)"
  by (simp add: syncMaps_rest_def getMapillaryCamera_def
      emit_def markers_def marker_count_append marker_effect_def Let_def
      split: outcome.splits option.splits)

lemma emit_core:
  "comp_id (emit x s) = comp_id s \<and> synced (emit x s) = synced s \<and>
   pending (emit x s) = pending s"
  by (simp add: emit_def)

lemma markers_emit_rejection: "markers (emit (UnhandledRejection err) s) = markers s"
  by (simp add: emit_def markers_def marker_count_append marker_effect_def)

lemma syncMaps_resume_core:
  "comp_id (syncMaps_resume e url s) = comp_id s \<and>
   synced (syncMaps_resume e url s) = synced s \<and>
   pending (syncMaps_resume e url s) = pending s \<and>
   markers (syncMaps_resume e url s) \<le> Suc (markers s)"
proof -
  obtain r1 s1 where a: "moveCloseToPosition_resume e url s = (r1, s1)" by (cases "moveCloseToPosition_resume e url s")
  obtain r2 s2 where b: "syncMaps_rest e s1 = (r2, s2)" by (cases "syncMaps_rest e s1")
  from moveCloseToPosition_resume_core [of e url s] a
  have 1: "comp_id s1 = comp_id s" "synced s1 = synced s" "pending s1 = pending s" "markers s1 = markers s"
    by simp_all
  from syncMaps_rest_core [of e s1] b
  have 2: "comp_id s2 = comp_id s1" "synced s2 = synced s1" "pending s2 = pending s1" "markers s2 \<le> Suc (markers s1)"
    by simp_all
  show ?thesis
    using a b 1 2
    by (simp add: syncMaps_resume_def emit_core markers_emit_rejection split: sum.splits)
qed

lemma unsyncMaps_resume_core:
  "comp_id (unsyncMaps_resume e cmd s) = comp_id s \<and>
   synced (unsyncMaps_resume e cmd s) = synced s \<and>
   pending (unsyncMaps_resume e cmd s) = pending s \<and>
   markers (unsyncMaps_resume e cmd s) = markers s"
  by (simp add: unsyncMaps_resume_def emit_core markers_emit_rejection split: outcome.splits)


lemma step_Settle_inv:
  assumes inv: "marker_inv s"
  shows "marker_inv (step e (Settle k) s)"
proof (cases "k < length (pending s)")
  case False
  with inv show ?thesis by (simp add: step_def)
next
  case True
  let ?rest = "take k (pending s) @ drop (Suc k) (pending s)"
  let ?s0 = "s\<lparr>pending := ?rest\<rparr>"
  have split: "pending s = take k (pending s) @ pending s ! k # drop (Suc k) (pending s)"
    using True by (rule id_take_nth_drop)
  have flt: "filter is_sync (pending s) =
      filter is_sync (take k (pending s)) @ (if is_sync (pending s ! k) then [pending s ! k] else [])
        @ filter is_sync (drop (Suc k) (pending s))"
    by (subst split) simp
  have m0: "markers ?s0 = markers s" by (simp add: markers_def)
  show ?thesis
  proof (cases "pending s ! k")
    case (UnsyncMapsAtRemove cmd)
    then have "filter is_sync ?rest = filter is_sync (pending s)"
      using flt by (simp add: is_sync_def)
    with inv m0 UnsyncMapsAtRemove True show ?thesis
      using unsyncMaps_resume_core [of e cmd ?s0]
      by (auto simp add: step_def resume_def marker_inv_def split: if_splits)
  next
    case (SyncMapsAtFetch url)
    then have ne: "filter is_sync (pending s) \<noteq> []"
      using flt by (simp add: is_sync_def)
    with inv have one: "length (filter is_sync (pending s)) = 1" and z: "markers s = 0"
      and sy: "synced s" by (simp_all add: marker_inv_def)
    from one flt SyncMapsAtFetch have "filter is_sync ?rest = []"
      by (simp add: is_sync_def)
    with z sy m0 SyncMapsAtFetch True show ?thesis
      using syncMaps_resume_core [of e url ?s0]
      by (auto simp add: step_def resume_def marker_inv_def)
  qed
qed

lemma quiet_emit:
  "quiet (emit (Viewer v c) s) = quiet s"
  "quiet (emit (RemoveHandle h) s) = quiet s"
  "quiet (emit Subscribe s) = quiet s"
  "quiet (emit Watch s) = quiet s"
  "quiet (emit (Assign f) s) = quiet s"
  "quiet (emit (UnhandledRejection err) s) = quiet s"
  by (simp_all add: quiet_def marker_inv_def markers_def emit_def marker_count_append
      marker_effect_def)

lemma quiet_update:
  "quiet (s\<lparr>mapillary := a\<rparr>) = quiet s"
  "quiet (s\<lparr>map_inst := b\<rparr>) = quiet s"
  "quiet (s\<lparr>viewerUpdateHandle := c\<rparr>) = quiet s"
  "quiet (s\<lparr>awaitViewHandle := d\<rparr>) = quiet s"
  by (simp_all add: quiet_def marker_inv_def markers_def)

lemma quiet_unsyncMaps_start:
  "filter is_sync (pending s) = [] \<Longrightarrow> quiet (unsyncMaps_start s)"
  by (simp add: quiet_def marker_inv_def markers_def unsyncMaps_start_def emit_def
      marker_count_append marker_effect_def is_sync_def Let_def)

lemma syncMaps_start_inv:
  "quiet s \<Longrightarrow> marker_inv (syncMaps_start e s)"
  by (auto simp add: quiet_def syncMaps_start_def emit_def markers_def marker_count_append
      marker_effect_def marker_inv_def is_sync_def Let_def split: option.splits)

lemma set_map_inv:
  assumes q: "quiet s"
  shows "marker_inv (set_map inst s)"
proof -
  define s1 where "s1 = (case map_inst s of None \<Rightarrow> s | Some _ \<Rightarrow> unsyncMaps_start s)"
  have "quiet s1"
  proof (cases "map_inst s")
    case None
    with q show ?thesis by (simp add: s1_def)
  next
    case (Some m)
    from q have "filter is_sync (pending s) = []" by (simp add: quiet_def)
    from quiet_unsyncMaps_start [OF this] Some show ?thesis by (simp add: s1_def)
  qed
  then have "quiet (emit Watch ((emit (Assign MapField) (s1\<lparr>map_inst := inst\<rparr>))
                \<lparr>awaitViewHandle := True\<rparr>))"
    by (simp add: quiet_emit quiet_update)
  then have "quiet (set_map inst s) \<or> set_map inst s = s"
    by (simp add: set_map_def Let_def s1_def)
  with q show ?thesis by (auto simp add: quiet_def)
qed

lemma onMapViewChanged_inv: "quiet s \<Longrightarrow> marker_inv (onMapViewChanged e s)"
  by (simp add: onMapViewChanged_def syncMaps_start_inv quiet_emit quiet_def [of s]
      split: option.splits)

lemma set_mapillary_inv:
  assumes q: "quiet s"
  shows "marker_inv (snd (set_mapillary e inst s))"
proof (cases "inst = mapillary s")
  case True
  with q show ?thesis by (simp add: set_mapillary_def quiet_def)
next
  case False
  define s1 where
    "s1 = (if viewerUpdateHandle s then emit (RemoveHandle ViewerUpdateHandle) s else s)"
  define s2 where
    "s2 = (case mapillary s1 of
             None \<Rightarrow> s1
           | Some v \<Rightarrow>
               unsyncMaps_start
                 (emit (Viewer v CallActivateCover)
                   (emit (Viewer v (CallOff PovChanged))
                     (emit (Viewer v (CallOff NodeChanged)) s1))))"
  define s3 where "s3 = emit (Assign MapillaryField) (s2\<lparr>mapillary := inst\<rparr>)"
  define s4 where
    "s4 = (case inst of
             None \<Rightarrow> s3
           | Some v \<Rightarrow>
               emit Subscribe
                 ((emit (Viewer v (CallOn NodeChanged)) s3)\<lparr>viewerUpdateHandle := True\<rparr>))"
  from q have q1: "quiet s1" by (simp add: s1_def quiet_emit)
  have q2: "quiet s2"
  proof (cases "mapillary s1")
    case None
    with q1 show ?thesis by (simp add: s2_def)
  next
    case (Some v)
    from q1 have "filter is_sync (pending s1) = []" by (simp add: quiet_def)
    then have "filter is_sync (pending (emit (Viewer v CallActivateCover)
                     (emit (Viewer v (CallOff PovChanged))
                       (emit (Viewer v (CallOff NodeChanged)) s1)))) = []"
      by (simp add: emit_def)
    from quiet_unsyncMaps_start [OF this] Some show ?thesis by (simp add: s2_def)
  qed
  then have q3: "quiet s3" by (simp add: s3_def quiet_emit quiet_update)
  then have q4: "quiet s4" by (cases inst) (simp_all add: s4_def quiet_emit quiet_update)
  have "set_mapillary e inst s =
          (if synced s4 then (Inr (), s4)
           else
             (case map_inst s4 of
                None \<Rightarrow> (Inl TypeError, s4)
              | Some m \<Rightarrow>
                  (case view_center e m of
                     None \<Rightarrow> (Inr (), s4)
                   | Some _ \<Rightarrow> (Inr (), syncMaps_start e s4))))"
    using False unfolding set_mapillary_def Let_def s4_def s3_def s2_def s1_def by simp
  then have "snd (set_mapillary e inst s) = s4 \<or>
             snd (set_mapillary e inst s) = syncMaps_start e s4"
    by (simp split: option.splits)
  with q4 syncMaps_start_inv [OF q4, of e] show ?thesis by (auto simp add: quiet_def)
qed

lemma step_Settle_length:
  "pending s \<noteq> [] \<Longrightarrow> length (pending (step e (Settle 0) s)) = length (pending s) - 1"
  using syncMaps_resume_core [of e _ "s\<lparr>pending := drop (Suc 0) (pending s)\<rparr>"]
    unsyncMaps_resume_core [of e _ "s\<lparr>pending := drop (Suc 0) (pending s)\<rparr>"]
  by (simp add: step_def resume_def split: task.splits)

lemma quiesce_inv:
  "marker_inv s \<Longrightarrow> marker_inv (quiesce e s) \<and> pending (quiesce e s) = []"
proof -
  have "\<And>s. length (pending s) = n \<Longrightarrow> marker_inv s \<Longrightarrow>
          marker_inv (run e (replicate n (Settle 0)) s) \<and>
          pending (run e (replicate n (Settle 0)) s) = []" for n
  proof (induction n)
    case 0
    then show ?case by simp
  next
    case (Suc n)
    from Suc.prems have ne: "pending s \<noteq> []" by auto
    have "length (pending (step e (Settle 0) s)) = n"
      using step_Settle_length [OF ne, of e] Suc.prems by simp
    moreover have "marker_inv (step e (Settle 0) s)"
      using Suc.prems by (simp add: step_Settle_inv)
    ultimately show ?case using Suc.IH [of "step e (Settle 0) s"] by simp
  qed
  then show "marker_inv s \<Longrightarrow> marker_inv (quiesce e s) \<and> pending (quiesce e s) = []"
    by (simp add: quiesce_def)
qed

lemma step_inv:
  assumes q: "quiet s"
  shows "marker_inv (step e ev s)"
proof (cases ev)
  case (SetMapillary i)
  with set_mapillary_inv [OF q, of e i] show ?thesis by (simp add: step_def)
next
  case (SetMap i)
  with set_map_inv [OF q, of i] show ?thesis by (simp add: step_def)
next
  case MapViewChanged
  with onMapViewChanged_inv [OF q, of e] show ?thesis by (simp add: step_def)
next
  case (Settle k)
  from q have "marker_inv s" by (simp add: quiet_def)
  with Settle step_Settle_inv [of s e k] show ?thesis by simp
qed

lemma run_quiet_inv: "settled s \<Longrightarrow> settled (run_quiet xs s)"
proof (induction xs arbitrary: s)
  case Nil
  then show ?case by simp
next
  case (Cons x xs)
  from Cons.prems have "quiet s" by (simp add: settled_def quiet_def)
  then have "marker_inv (step (fst x) (snd x) s)" by (rule step_inv)
  then have "settled (quiesce (fst x) (step (fst x) (snd x) s))"
    using quiesce_inv [of "step (fst x) (snd x) s" "fst x"] by (simp add: settled_def)
  then show ?case using Cons.IH by simp
qed

lemma settled_fresh: "settled fresh"
  by (simp add: settled_def marker_inv_def markers_def fresh_def marker_count_def)

lemma sequential_runs_keep_one_marker:
  "markers (run_quiet xs fresh) \<le> 1 \<and> pending (run_quiet xs fresh) = []"
proof -
  have "settled (run_quiet xs fresh)" by (rule run_quiet_inv [OF settled_fresh])
  then show ?thesis by (auto simp add: settled_def marker_inv_def)
qed

text \<open>Unsynchronize leaves no marker of the component.\<close>

lemma unsyncMaps_clears_markers:
  "markers (unsyncMaps_start s) = 0 \<and> markers (snd (unsyncMaps e s)) = 0"
  by (simp add: unsyncMaps_start_def unsyncMaps_def markers_def emit_def marker_count_append
      marker_effect_def Let_def split: outcome.splits)

subsection \<open>The claims\<close>

text \<open>
  C1. The claim: every sync operation triggered by an assignment is a silent no-op while
  the map or the viewer is absent, and assigning a viewer when no map is attached
  completes without an error. The guard of \<open>_syncMaps\<close> does make the sync a no-op
  (\<open>syncMaps_guard\<close>), but the setter does not get that far: when the component is not
  synced and no map is attached, assigning a viewer (or clearing it) throws a
  \<open>TypeError\<close>, from reading \<open>this.map.view\<close>.
\<close>

theorem set_mapillary_without_map_throws:
  "map_inst s = None \<Longrightarrow> \<not> synced s \<Longrightarrow> inst \<noteq> mapillary s \<Longrightarrow>
     fst (set_mapillary e inst s) = Inl TypeError"
  by (simp add: set_mapillary_def emit_def unsyncMaps_start_def Let_def split: option.splits)

theorem set_mapillary_without_map_throws_witness:
  "map_inst fresh = None \<and> \<not> synced fresh \<and> Some 1 \<noteq> mapillary fresh \<and>
   fst (set_mapillary env_ok (Some 1) fresh) = Inl TypeError"
  using set_mapillary_without_map_throws [of fresh "Some 1" env_ok]
  by (simp add: fresh_def)

text \<open>
  C2. The claim: with no viewer attached, recentre is a no-op that completes without an
  error and issues no map command. The camera does resolve to undefined and no command
  is issued (the model is returned unchanged), but \<open>recenter\<close> then destructures the
  undefined camera: it rejects with a \<open>TypeError\<close>.
\<close>

theorem recenter_without_viewer_throws:
  "mapillary s = None \<Longrightarrow>
     getMapillaryCamera e s = (Inr None, s) \<and> recenter e s = (Inl TypeError, s)"
  by (simp add: recenter_def getMapillaryCamera_def)

theorem recenter_without_viewer_throws_witness:
  "mapillary fresh = None \<and>
   getMapillaryCamera env_ok fresh = (Inr None, fresh) \<and>
   recenter env_ok fresh = (Inl TypeError, fresh)"
  using recenter_without_viewer_throws [of fresh env_ok]
  by (simp add: fresh_def)

text \<open>
  C3. The claim: a point-of-view cycle that sets \<open>updating\<close> resets it on every outcome,
  a failure of the camera resolution included. When the viewer's point-of-view query
  rejects, the cycle ends with \<open>updating\<close> still set, and every later cycle returns at the
  guard without doing anything.
\<close>

theorem onPerspectiveChange_camera_failure_keeps_updating:
  "map_inst s = Some m \<Longrightarrow> mapillary s = Some v \<Longrightarrow> \<not> updating s \<Longrightarrow>
   getPointOfView e v = Rejects \<Longrightarrow>
     fst (onPerspectiveChange e s) = Inl Rejection \<and>
     updating (snd (onPerspectiveChange e s)) \<and>
     onPerspectiveChange e' (snd (onPerspectiveChange e s)) =
       (Inr (), snd (onPerspectiveChange e s))"
  by (simp add: onPerspectiveChange_def getMapillaryCamera_def emit_def Let_def
      split: option.splits outcome.splits)

theorem onPerspectiveChange_camera_failure_keeps_updating_witness:
  "map_inst synced_example = Some 1 \<and> mapillary synced_example = Some 1 \<and>
   \<not> updating synced_example \<and> getPointOfView env_pov_rejects 1 = Rejects \<and>
   fst (onPerspectiveChange env_pov_rejects synced_example) = Inl Rejection \<and>
   updating (snd (onPerspectiveChange env_pov_rejects synced_example)) \<and>
   onPerspectiveChange env_ok (snd (onPerspectiveChange env_pov_rejects synced_example)) =
     (Inr (), snd (onPerspectiveChange env_pov_rejects synced_example))"
  using onPerspectiveChange_camera_failure_keeps_updating
          [of synced_example 1 1 env_pov_rejects env_ok]
  by (simp add: synced_example_value env_pov_rejects_def env_ok_def)

text \<open>
  C7. Whenever a merged node position \<open>P\<close> is cached (and the viewer is attached and
  answers its point-of-view and field-of-view queries), the camera that
  \<open>_getMapillaryCamera\<close> returns has the latitude and longitude of \<open>P\<close>; the raw position
  query is not even made, so whatever it would answer (\<open>q\<close>: any position, or a rejection)
  is never the returned position.
\<close>

theorem getMapillaryCamera_prefers_cached_position:
  "currentNodePosition s = Some P \<Longrightarrow> mapillary s = Some v \<Longrightarrow>
   getPointOfView e v = Resolves pv \<Longrightarrow> getFieldOfView e v = Resolves f \<Longrightarrow>
     fst (getMapillaryCamera (e\<lparr>getPosition := q\<rparr>) s) =
       Inr (Some \<lparr>latitude = lat P, longitude = lon P, heading = bearing pv,
                  tilt = pov_tilt pv + 90, fov = f\<rparr>) \<and>
     issued s (snd (getMapillaryCamera (e\<lparr>getPosition := q\<rparr>) s)) =
       [Viewer v CallGetPointOfView, Viewer v CallGetFieldOfView]"
  by (simp add: getMapillaryCamera_def emit_def issued_def Let_def)

theorem getMapillaryCamera_prefers_cached_position_witness:
  "currentNodePosition (attached\<lparr>currentNodePosition := Some \<lparr>lat = 5, lon = 6\<rparr>\<rparr>) =
     Some \<lparr>lat = 5, lon = 6\<rparr> \<and>
   getPosition env_ok 1 = Resolves \<lparr>lat = 1, lon = 2\<rparr> \<and>
   fst (getMapillaryCamera env_ok (attached\<lparr>currentNodePosition := Some \<lparr>lat = 5, lon = 6\<rparr>\<rparr>)) =
     Inr (Some \<lparr>latitude = 5, longitude = 6, heading = 90, tilt = 90, fov = 60\<rparr>)"
  using getMapillaryCamera_prefers_cached_position
          [of "attached\<lparr>currentNodePosition := Some \<lparr>lat = 5, lon = 6\<rparr>\<rparr>" "\<lparr>lat = 5, lon = 6\<rparr>" 1
              env_ok "\<lparr>bearing = 90, pov_tilt = 0\<rparr>" 60 "getPosition env_ok"]
  by (simp add: attached_def fresh_def env_ok_def)

text \<open>
  C8. A marker-update event delivered while the suppress-echo flag is set
  (\<open>_handleMarkerUpdate\<close> is false) is ignored: nothing changes but the flag, which is
  reset, so \<open>currentMarkerPosition\<close> keeps its value; the next event \<open>q\<close> is then recorded.
\<close>

theorem handleViewerUpdate_suppressed_echo:
  "\<not> handleMarkerUpdate s \<Longrightarrow>
     handleViewerUpdate p s = s\<lparr>handleMarkerUpdate := True\<rparr> \<and>
     currentMarkerPosition (handleViewerUpdate p s) = currentMarkerPosition s \<and>
     handleMarkerUpdate (handleViewerUpdate p s) \<and>
     currentMarkerPosition (handleViewerUpdate q (handleViewerUpdate p s)) = Some q"
  by (simp add: handleViewerUpdate_def)

theorem handleViewerUpdate_suppressed_echo_witness:
  "\<not> handleMarkerUpdate (snd (onPerspectiveChange env_ok synced_example)) \<and>
   currentMarkerPosition
     (handleViewerUpdate (1, 2) (snd (onPerspectiveChange env_ok synced_example))) = None \<and>
   currentMarkerPosition
     (handleViewerUpdate (3, 4)
       (handleViewerUpdate (1, 2) (snd (onPerspectiveChange env_ok synced_example)))) =
     Some (3, 4)"
  using handleViewerUpdate_suppressed_echo
          [of "snd (onPerspectiveChange env_ok synced_example)" "(1, 2)" "(3, 4)"]
  by (simp add: synced_example_value env_ok_def onPerspectiveChange_def getMapillaryCamera_def
      emit_def handleViewerUpdate_def Let_def)

text \<open>
  C9. The rotation of every zoom command that \<open>recenter\<close>, \<open>_syncMaps\<close> and a
  point-of-view cycle issue is \<open>360 - heading\<close>, where the heading is the bearing the
  viewer reports; this is what \<open>getCameraRotationFromBearing\<close> computes. Numbers are
  reals here.
\<close>

theorem rotation_is_360_minus_heading:
  assumes "mapillary s = Some v" and "getPointOfView e v = Resolves pv"
    and "0 \<le> bearing pv" and "bearing pv < 360"
  shows "getCameraRotationFromBearing (bearing pv) = 360 - bearing pv \<and>
    (\<forall>r \<in> set (zoom_rotations (issued s (snd (recenter e s)))). r = 360 - bearing pv) \<and>
    (\<forall>r \<in> set (zoom_rotations (issued s (snd (syncMaps e s)))). r = 360 - bearing pv) \<and>
    (\<forall>r \<in> set (zoom_rotations (issued s (snd (onPerspectiveChange e s)))).
        r = 360 - bearing pv)"
  using assms recenter_rotation [of s v e pv] syncMaps_rotation [of s v e pv]
    onPerspectiveChange_rotation [of s v e pv]
  by (simp add: getCameraRotationFromBearing_def)

theorem rotation_is_360_minus_heading_witness:
  "mapillary attached = Some 1 \<and>
   getPointOfView env_ok 1 = Resolves \<lparr>bearing = 90, pov_tilt = 0\<rparr> \<and>
   zoom_rotations (issued attached (snd (recenter env_ok attached))) = [270] \<and>
   zoom_rotations (issued attached (snd (syncMaps env_ok attached))) = [270] \<and>
   zoom_rotations (issued synced_example (snd (onPerspectiveChange env_ok synced_example))) =
     [270] \<and>
   list_all (\<lambda>r. r = 360 - 90)
     (zoom_rotations (issued attached (snd (syncMaps env_ok attached))))"
  using rotation_is_360_minus_heading [of attached 1 env_ok "\<lparr>bearing = 90, pov_tilt = 0\<rparr>"]
  by (simp add: synced_example_value attached_def fresh_def env_ok_def one_image_def issued_def
      zoom_rotations_def recenter_def syncMaps_def syncMaps_rest_def onPerspectiveChange_def
      getMapillaryCamera_def moveCloseToPosition_def moveCloseToPosition_resume_def imgKey_def
      opt_prop_def opt_index0_def truthy_def emit_def getCameraRotationFromBearing_def Let_def)

text \<open>
  C10. Provided a viewer is attached, \<open>moveCloseToPosition\<close> returns normally whatever the
  fetch answers (rejected, a body that is not JSON, a body of any shape) and whether or
  not the viewer's \<open>moveToKey\<close> rejects.
\<close>

theorem moveCloseToPosition_never_rejects:
  "mapillary s = Some v \<Longrightarrow> fst (moveCloseToPosition e la lo s) = Inr ()"
  by (simp add: moveCloseToPosition_def moveCloseToPosition_resume_def
      moveCloseToPosition_catch_def activateCover_def emit_def Let_def
      split: fetch_outcome.splits outcome.splits)

theorem moveCloseToPosition_never_rejects_witness:
  "mapillary attached = Some 1 \<and>
   fetch env_fetch_rejects (ImagesRequest '''' 20 10 500) = FetchRejects \<and>
   fst (moveCloseToPosition env_fetch_rejects 10 20 attached) = Inr ()"
  using moveCloseToPosition_never_rejects [of attached 1 env_fetch_rejects 10 20]
  by (simp add: attached_def fresh_def env_fetch_rejects_def env_ok_def)

text \<open>
  Starting \<open>_syncMaps\<close> with \<open>void\<close> and settling its image query at once, with nothing in
  between, is \<open>_syncMaps\<close> run to its end.
\<close>

lemma syncMaps_start_then_settle:
  assumes "map_inst s = Some m" and "mapillary s = Some v" and "\<not> synced s"
    and "view_center e m = Some c"
  shows "step e (Settle (length (pending s))) (syncMaps_start e s) =
           (case syncMaps e s of
              (Inl err, s') \<Rightarrow> emit (UnhandledRejection err) s'
            | (Inr _, s') \<Rightarrow> s')"
  using assms
  by (simp add: step_def syncMaps_start_def syncMaps_def resume_def syncMaps_resume_def
      moveCloseToPosition_def emit_def Let_def split: prod.splits sum.splits)

text \<open>
  C4 (as stated). The claim: when a handle is replaced or cleared while synced,
  unsynchronize is awaited to completion before the handle field is overwritten. In the
  synced component, replacing the map issues the removal command and overwrites the
  field at once; when the setter has returned, the field holds the new map and the await
  of the removal is still pending. The same holds when the viewer is replaced.
\<close>

theorem setters_do_not_await_unsync:
  "synced synced_example \<and> map_inst synced_example = Some 1 \<and>
   mapillary synced_example = Some 1 \<and>
   issued synced_example (set_map (Some 2) synced_example) =
     [Execute (LocationMarkerRemove ''mapillary'' (Some 1)), Assign MapField, Watch] \<and>
   map_inst (set_map (Some 2) synced_example) = Some 2 \<and>
   pending (set_map (Some 2) synced_example) =
     [UnsyncMapsAtRemove (LocationMarkerRemove ''mapillary'' (Some 1))] \<and>
   mapillary (snd (set_mapillary env_ok None synced_example)) = None \<and>
   pending (snd (set_mapillary env_ok None synced_example)) =
     [UnsyncMapsAtRemove (LocationMarkerRemove ''mapillary'' (Some 1))]"
  by (simp add: synced_example_value set_map_def set_mapillary_def unsyncMaps_start_def
      syncMaps_start_def emit_def issued_def env_ok_def Let_def)

text \<open>
  C4 (amended). When a handle is replaced or cleared while synced, unsynchronize is
  started before the handle field is overwritten: the component is marked not synced and
  the removal command for its marker is issued, with the map of that moment, immediately
  before the overwrite. Its completion is not awaited: it is left pending.

  For the map setter the flag is still cleared when the setter returns. The viewer setter
  goes on after the overwrite, so the clearing shows in what it does next: the outcome
  does not depend on the flag it found, the component is not synced when it returns
  unless it has itself started a new sync for a new viewer (map attached, view ready),
  and that sync's image query is issued after the overwrite, right after the subscription.
\<close>

theorem unsync_started_before_overwrite:
  assumes "synced s"
  shows
    "(map_inst s = Some m \<and> inst \<noteq> Some m \<longrightarrow>
        issued s (set_map inst s) =
          [Execute (LocationMarkerRemove (comp_id s) (Some m)), Assign MapField, Watch] \<and>
        \<not> synced (set_map inst s) \<and>
        pending (set_map inst s) =
          pending s @ [UnsyncMapsAtRemove (LocationMarkerRemove (comp_id s) (Some m))]) \<and>
     (mapillary s = Some v \<and> vinst \<noteq> Some v \<longrightarrow>
        adjacent (Execute (LocationMarkerRemove (comp_id s) (map_inst s)))
          (Assign MapillaryField) (issued s (snd (set_mapillary e vinst s))) \<and>
        set_mapillary e vinst s = set_mapillary e vinst (s\<lparr>synced := False\<rparr>) \<and>
        (vinst = None \<or> map_inst s = None \<or>
         (map_inst s = Some m' \<and> view_center e m' = None) \<longrightarrow>
           \<not> synced (snd (set_mapillary e vinst s)) \<and>
           pending (snd (set_mapillary e vinst s)) =
             pending s @ [UnsyncMapsAtRemove (LocationMarkerRemove (comp_id s) (map_inst s))]) \<and>
        (vinst = Some v' \<and> map_inst s = Some m' \<and> view_center e m' = Some c \<longrightarrow>
           synced (snd (set_mapillary e vinst s)) \<and>
           pending (snd (set_mapillary e vinst s)) =
             pending s @
             [UnsyncMapsAtRemove (LocationMarkerRemove (comp_id s) (map_inst s)),
              SyncMapsAtFetch (ImagesRequest (mapillaryKey s) (snd c) (fst c) (searchRadius s))] \<and>
           adjacent Subscribe
             (Fetch (ImagesRequest (mapillaryKey s) (snd c) (fst c) (searchRadius s)))
             (issued s (snd (set_mapillary e vinst s)))))"
  using assms
  by (auto simp add: set_map_def set_mapillary_def unsyncMaps_start_def syncMaps_start_def
      emit_def issued_def Let_def split: option.splits)

theorem unsync_started_before_overwrite_witness:
  "synced synced_example \<and>
   issued synced_example (set_map (Some 2) synced_example) =
     [Execute (LocationMarkerRemove ''mapillary'' (Some 1)), Assign MapField, Watch] \<and>
   \<not> synced (set_map (Some 2) synced_example) \<and>
   adjacent (Execute (LocationMarkerRemove ''mapillary'' (Some 1))) (Assign MapillaryField)
     (issued synced_example (snd (set_mapillary env_ok (Some 2) synced_example))) \<and>
   \<not> synced (snd (set_mapillary env_ok None synced_example)) \<and>
   pending (snd (set_mapillary env_ok None synced_example)) =
     [UnsyncMapsAtRemove (LocationMarkerRemove ''mapillary'' (Some 1))] \<and>
   synced (snd (set_mapillary env_ok (Some 2) synced_example)) \<and>
   pending (snd (set_mapillary env_ok (Some 2) synced_example)) =
     [UnsyncMapsAtRemove (LocationMarkerRemove ''mapillary'' (Some 1)),
      SyncMapsAtFetch (ImagesRequest '''' 20 10 500)]"
  using unsync_started_before_overwrite
          [of synced_example 1 "Some 2" 1 "Some 2" env_ok 1 2 "(10, 20)"]
        unsync_started_before_overwrite
          [of synced_example 1 "Some 2" 1 None env_ok 1 2 "(10, 20)"]
  by (simp add: synced_example_value env_ok_def set_map_def set_mapillary_def
      unsyncMaps_start_def syncMaps_start_def emit_def issued_def Let_def)

text \<open>
  C5. The claim: for every sequence of viewer and map assignments at most one marker
  created under the component's id is not yet removed. The map (its view ready) is
  assigned, then a viewer, and then another viewer before the image query of the first
  sync has answered: the second assignment clears \<open>_synced\<close> and starts a second sync, and
  when the two queries answer each sync issues its create command. Two markers are
  created and none of them is removed. (When every sync finishes before the next event
  the count stays at most one: \<open>sequential_runs_keep_one_marker\<close>.)
\<close>

theorem two_markers_when_viewer_replaced_during_sync:
  "pending (run env_ok [SetMap (Some 1), SetMapillary (Some 1), SetMapillary (Some 2)] fresh) =
     [SyncMapsAtFetch (ImagesRequest '''' 20 10 500),
      UnsyncMapsAtRemove (LocationMarkerRemove ''mapillary'' (Some 1)),
      SyncMapsAtFetch (ImagesRequest '''' 20 10 500)] \<and>
   commands (effects (run env_ok
       [SetMap (Some 1), SetMapillary (Some 1), SetMapillary (Some 2),
        Settle 1, Settle 0, Settle 0] fresh)) =
     [LocationMarkerRemove ''mapillary'' (Some 1),
      LocationMarkerCreate 60 (1, 2) 90 90 ''mapillary'' (Some 1) True,
      ZoomToViewpoint (Some 1) 270 (1, 2) 3000,
      LocationMarkerCreate 60 (1, 2) 90 90 ''mapillary'' (Some 1) True,
      ZoomToViewpoint (Some 1) 270 (1, 2) 3000] \<and>
   marker_count ''mapillary'' (effects (run env_ok
       [SetMap (Some 1), SetMapillary (Some 1), SetMapillary (Some 2),
        Settle 1, Settle 0, Settle 0] fresh)) = 2"
  by (simp add: step_def set_map_def set_mapillary_def fresh_def env_ok_def one_image_def
      emit_def syncMaps_start_def unsyncMaps_start_def resume_def syncMaps_resume_def
      unsyncMaps_resume_def moveCloseToPosition_resume_def imgKey_def opt_prop_def
      opt_index0_def truthy_def syncMaps_rest_def getMapillaryCamera_def marker_count_def
      marker_effect_def commands_def getCameraRotationFromBearing_def Let_def)

text \<open>
  C6 (as stated). The claim: when the index query succeeds and returns at least one
  feature, the viewer is commanded to navigate to the first feature's key. The index
  answers with one feature whose key is the empty string: the key is falsy, so the
  viewer is commanded into the cover state and no navigation command is issued.
\<close>

theorem first_feature_with_empty_key_gives_cover:
  "mapillary attached = Some 1 \<and>
   fetch env_empty_key (ImagesRequest '''' 20 10 500) = Body empty_key_image \<and>
   opt_prop empty_key_image ''features'' =
     JArr [JObj [(''properties'', JObj [(''key'', JStr '''')])]] \<and>
   imgKey empty_key_image = JStr '''' \<and>
   issued attached (snd (moveCloseToPosition env_empty_key 10 20 attached)) =
     [Fetch (ImagesRequest '''' 20 10 500), Viewer 1 CallActivateCover]"
  by (simp add: attached_def fresh_def env_empty_key_def env_ok_def empty_key_image_def
      moveCloseToPosition_def moveCloseToPosition_resume_def moveCloseToPosition_catch_def
      activateCover_def imgKey_def opt_prop_def opt_index0_def truthy_def emit_def issued_def
      Let_def)

text \<open>
  C6 (amended). With a viewer attached: if the index query succeeds and its first
  feature carries a truthy (non-empty) key, the viewer is commanded to navigate to that
  key and \<open>updating\<close> is false afterwards; if the query succeeds without such a key (zero
  features included), or the fetch or the parsing fails, then \<open>updating\<close> is false
  afterwards, the viewer is commanded into the cover state, and no navigation command is
  issued.
\<close>

theorem moveCloseToPosition_outcomes:
  assumes "mapillary s = Some v"
    and "url = ImagesRequest (mapillaryKey s) lo la (searchRadius s)"
    and "s' = snd (moveCloseToPosition e la lo s)"
  shows
    "(fetch e url = Body data \<and> truthy (imgKey data) \<longrightarrow>
        issued s s' =
          [Fetch url, Viewer v (CallMoveToKey (imgKey data))] @
          (if moveToKey e v (imgKey data) = Rejects then [Viewer v CallActivateCover] else []) \<and>
        \<not> updating s') \<and>
     (fetch e url = FetchRejects \<or> fetch e url = BodyNotJson \<or>
      (fetch e url = Body data \<and> \<not> truthy (imgKey data)) \<longrightarrow>
        issued s s' = [Fetch url, Viewer v CallActivateCover] \<and> \<not> updating s') \<and>
     (opt_prop data ''features'' = JArr [] \<longrightarrow> \<not> truthy (imgKey data))"
  using assms
  by (auto simp add: moveCloseToPosition_def moveCloseToPosition_resume_def
      moveCloseToPosition_catch_def activateCover_def emit_def issued_def Let_def
      imgKey_def opt_prop_def opt_index0_def truthy_def
      split: fetch_outcome.splits outcome.splits)

theorem moveCloseToPosition_outcomes_witness:
  "mapillary attached = Some 1 \<and>
   fetch env_ok (ImagesRequest '''' 20 10 500) = Body one_image \<and>
   truthy (imgKey one_image) \<and>
   issued attached (snd (moveCloseToPosition env_ok 10 20 attached)) =
     [Fetch (ImagesRequest '''' 20 10 500), Viewer 1 (CallMoveToKey (JStr ''abc''))] \<and>
   \<not> updating (snd (moveCloseToPosition env_ok 10 20 attached))"
  using moveCloseToPosition_outcomes
          [of attached 1 "ImagesRequest '''' 20 10 500" 20 10
              "snd (moveCloseToPosition env_ok 10 20 attached)" env_ok one_image]
  by (simp add: attached_def fresh_def env_ok_def one_image_def imgKey_def opt_prop_def
      opt_index0_def truthy_def)

end
